theory Spec2Isabelle
  imports Main "HOL-Library.Word"
begin

section \<open>The Go run time the vector is written against\<close>

text \<open>
  The vector of \<^verbatim>\<open>src/collections/vector.go\<close> is a thin layer over Go's slices, so the
  model starts with the slice operations the code calls. The platform is a 64-bit one:
  \<^verbatim>\<open>int\<close> has 64 bits and \<^verbatim>\<open>uint64\<close> is a 64-bit word. A run-time panic is a value of
  the outcome type, so that every panic of the source is a branch of the model.
\<close>

type_synonym uint64 = "64 word"

definition max_int :: nat where
  "max_int = 2 ^ 63 - 1"

datatype panic =
  IndexOutOfRange
  | SliceBoundsOutOfRange
  | MakeCapOutOfRange
  | GrowLenOutOfRange
  | NilDereference
  | OutOfMemory

datatype 'a res = Panic panic | Ret 'a

text \<open>
  A non-nil slice is its window on the backing array: \<open>elems\<close> are the \<^verbatim>\<open>len(s)\<close>
  elements the slice shows, \<open>spare\<close> is the rest of the array up to \<^verbatim>\<open>cap(s)\<close>. A value
  of Go type \<^verbatim>\<open>[]T\<close> is \<open>None\<close> (the nil slice) or \<open>Some\<close> of such a window.
\<close>

record 'a slice =
  elems :: "'a list"
  spare :: "'a list"

definition go_elems :: "'a slice option \<Rightarrow> 'a list" where
  "go_elems s = (case s of None \<Rightarrow> [] | Some a \<Rightarrow> elems a)"

definition go_len :: "'a slice option \<Rightarrow> nat" where
  "go_len s = (case s of None \<Rightarrow> 0 | Some a \<Rightarrow> length (elems a))"

definition go_cap :: "'a slice option \<Rightarrow> nat" where
  "go_cap s = (case s of None \<Rightarrow> 0 | Some a \<Rightarrow> length (elems a) + length (spare a))"

text \<open>
  What \<^verbatim>\<open>make\<close> accepts depends on the run time, the element type and the machine:
  \<open>maxAlloc\<close> is the run time's limit on the bytes of one allocation (\<^verbatim>\<open>maxAlloc\<close> of
  \<^verbatim>\<open>runtime/malloc.go\<close>), \<open>elem_size\<close> is \<^verbatim>\<open>unsafe.Sizeof\<close> of an element, and
  \<open>free_mem\<close> is the number of bytes the operating system grants the process for the
  array. None of them is part of the repository, so they are a parameter of the model.
\<close>

record runtime =
  maxAlloc :: nat
  elem_size :: nat
  free_mem :: nat

text \<open>
  \<^verbatim>\<open>make([]T, 0, c)\<close> with \<^verbatim>\<open>c\<close> of type \<^verbatim>\<open>uint64\<close>. \<^verbatim>\<open>makeslice\<close> checks the request:
  the capacity has to be a non-negative \<^verbatim>\<open>int\<close> and the array of \<^verbatim>\<open>c\<close> elements must not
  exceed \<^verbatim>\<open>maxAlloc\<close> bytes, else the run time panics (makeslice: cap out of range). A
  request that passes the check and that the machine cannot serve ends the process
  (fatal error: out of memory), which is the outcome \<open>OutOfMemory\<close>. The array holds zero
  values; the zero value of the element type is the \<open>0\<close> of class \<open>zero\<close>.
\<close>

definition go_make :: "runtime \<Rightarrow> uint64 \<Rightarrow> ('a::zero) slice option res" where
  "go_make rt c =
     (if max_int < unat c \<or> maxAlloc rt < elem_size rt * unat c then Panic MakeCapOutOfRange
      else if free_mem rt < elem_size rt * unat c then Panic OutOfMemory
      else Ret (Some \<lparr>elems = [], spare = replicate (unat c) 0\<rparr>))"

text \<open>
  \<^verbatim>\<open>append(s, xs...)\<close>. Within the capacity the elements are written into the spare part
  of the array. Beyond it a new array is allocated; how much room the run time leaves
  after the new elements is its growth policy, which is not part of the repository: it is
  the parameter \<open>slack\<close> (old capacity, needed length), cut off where the capacity would
  leave the range of \<^verbatim>\<open>int\<close>. A length beyond that range panics (growslice: len out of
  range). That the machine has the memory for the new array is taken for
  granted.
\<close>

definition go_append :: "(nat \<Rightarrow> nat \<Rightarrow> nat) \<Rightarrow> ('a::zero) slice option \<Rightarrow> 'a list \<Rightarrow> 'a slice option res" where
  "go_append slack s xs =
     (let n = go_len s + length xs in
      if n \<le> go_cap s then
        (case s of None \<Rightarrow> Ret None
         | Some a \<Rightarrow> Ret (Some \<lparr>elems = elems a @ xs, spare = drop (length xs) (spare a)\<rparr>))
      else if max_int < n then Panic GrowLenOutOfRange
      else Ret (Some \<lparr>elems = go_elems s @ xs,
                       spare = replicate (min (slack (go_cap s) n) (max_int - n)) 0\<rparr>))"

text \<open>\<^verbatim>\<open>s[i]\<close>: the index has to be below \<^verbatim>\<open>len(s)\<close>.\<close>

definition go_index :: "'a slice option \<Rightarrow> uint64 \<Rightarrow> 'a res" where
  "go_index s i =
     (if unat i < go_len s then Ret (go_elems s ! unat i) else Panic IndexOutOfRange)"

text \<open>\<^verbatim>\<open>s[:h]\<close>: the bound may reach into the spare part, up to \<^verbatim>\<open>cap(s)\<close>.\<close>

definition go_slice_to :: "'a slice option \<Rightarrow> uint64 \<Rightarrow> 'a slice option res" where
  "go_slice_to s h =
     (if go_cap s < unat h then Panic SliceBoundsOutOfRange
      else (case s of None \<Rightarrow> Ret None
            | Some a \<Rightarrow> Ret (Some \<lparr>elems = take (unat h) (elems a @ spare a),
                                    spare = drop (unat h) (elems a @ spare a)\<rparr>)))"

text \<open>\<^verbatim>\<open>s[l:]\<close>, which is \<^verbatim>\<open>s[l:len(s)]\<close>: the bound has to be at most \<^verbatim>\<open>len(s)\<close>.\<close>

definition go_slice_from :: "'a slice option \<Rightarrow> uint64 \<Rightarrow> 'a slice option res" where
  "go_slice_from s l =
     (if go_len s < unat l then Panic SliceBoundsOutOfRange
      else (case s of None \<Rightarrow> Ret None
            | Some a \<Rightarrow> Ret (Some \<lparr>elems = drop (unat l) (elems a), spare = spare a\<rparr>)))"

text \<open>
  \<^verbatim>\<open>copy(dst, src)\<close> overwrites the first \<^verbatim>\<open>min(len(dst), len(src))\<close> elements of
  \<^verbatim>\<open>dst\<close>; the result is \<^verbatim>\<open>dst\<close> afterwards. Nothing is copied into a nil slice.
\<close>

definition go_copy :: "'a slice option \<Rightarrow> 'a slice option \<Rightarrow> 'a slice option" where
  "go_copy dst src =
     (case dst of None \<Rightarrow> None
      | Some d \<Rightarrow> Some (d\<lparr>elems := take (length (elems d)) (go_elems src)
                                      @ drop (go_len src) (elems d)\<rparr>))"

text \<open>\<^verbatim>\<open>slices.Clip(s)\<close> is \<^verbatim>\<open>s[:len(s):len(s)]\<close>; \<^verbatim>\<open>slices.Reverse(s)\<close> reverses in place.\<close>

definition slices_Clip :: "'a slice option \<Rightarrow> 'a slice option" where
  "slices_Clip s = (case s of None \<Rightarrow> None | Some a \<Rightarrow> Some (a\<lparr>spare := []\<rparr>))"

definition slices_Reverse :: "'a slice option \<Rightarrow> 'a slice option" where
  "slices_Reverse s = (case s of None \<Rightarrow> None | Some a \<Rightarrow> Some (a\<lparr>elems := rev (elems a)\<rparr>))"

section \<open>The vector\<close>

definition nilValueAccess :: string where
  "nilValueAccess = ''Error: attempting to access nil value''"

definition indexOutOfBounds :: string where
  "indexOutOfBounds = ''Error: attempting to access invalid memory location''"

datatype error = errors_New string

text \<open>
  The struct, with its fields \<^verbatim>\<open>__slice\<close>, \<^verbatim>\<open>__len\<close> and \<^verbatim>\<open>__cap\<close>. A receiver
  \<^verbatim>\<open>this *Vector[T]\<close> is \<open>None\<close> (the nil pointer) or \<open>Some v\<close>; a method returns what the
  Go method returns together with the receiver as the call leaves it. A returned
  \<^verbatim>\<open>error\<close> is \<open>None\<close> for \<^verbatim>\<open>nil\<close>.
\<close>

record 'a Vector =
  v_slice :: "'a slice option"
  v_len :: uint64
  v_cap :: uint64

definition updateStatus :: "'a Vector option \<Rightarrow> 'a Vector option" where
  "updateStatus this =
     (case this of None \<Rightarrow> None
      | Some v \<Rightarrow>
          if v_slice v = None then this
          else Some (v\<lparr>v_len := word_of_nat (go_len (v_slice v)),
                       v_cap := word_of_nat (go_cap (v_slice v))\<rparr>))"

definition WithCapacity :: "runtime \<Rightarrow> uint64 \<Rightarrow> ('a::zero) Vector res" where
  "WithCapacity rt capacity =
     (case go_make rt capacity of Panic p \<Rightarrow> Panic p
      | Ret s \<Rightarrow> Ret \<lparr>v_slice = s, v_len = 0, v_cap = capacity\<rparr>)"

definition New :: "runtime \<Rightarrow> ('a::zero) Vector res" where
  "New rt = WithCapacity rt 0"

text \<open>
  \<^verbatim>\<open>safeCopy\<close> is declared without a value, so it is the nil slice when
  \<^verbatim>\<open>copy(safeCopy, this.__slice)\<close> runs. \<^verbatim>\<open>uint64(cap(safeCopy) + int(capacity))\<close> is an
  addition of 64-bit values, converted back without change of the bits.
\<close>

definition AddCapacity :: "runtime \<Rightarrow> (nat \<Rightarrow> nat \<Rightarrow> nat) \<Rightarrow> ('a::zero) Vector option \<Rightarrow> uint64
    \<Rightarrow> (error option \<times> 'a Vector option) res" where
  "AddCapacity rt slack this capacity =
     (case this of None \<Rightarrow> Ret (Some (errors_New nilValueAccess), None)
      | Some v \<Rightarrow>
          if v_slice v = None then
            (case WithCapacity rt capacity of Panic p \<Rightarrow> Panic p
             | Ret w \<Rightarrow> Ret (None, Some w))
          else
            (let safeCopy = go_copy None (v_slice v) in
             case WithCapacity rt (word_of_nat (go_cap safeCopy) + capacity) of Panic p \<Rightarrow> Panic p
             | Ret w \<Rightarrow>
                 (case go_append slack (v_slice w) (go_elems safeCopy) of Panic p \<Rightarrow> Panic p
                  | Ret s \<Rightarrow> Ret (None, updateStatus (Some (w\<lparr>v_slice := s\<rparr>))))))"

definition Clear :: "runtime \<Rightarrow> ('a::zero) Vector option \<Rightarrow> 'a Vector option res" where
  "Clear rt this =
     (case this of None \<Rightarrow> Ret None
      | Some v \<Rightarrow> (case New rt of Panic p \<Rightarrow> Panic p | Ret w \<Rightarrow> Ret (updateStatus (Some w))))"

definition Strip :: "'a Vector option \<Rightarrow> 'a Vector option" where
  "Strip this =
     (case this of None \<Rightarrow> None
      | Some v \<Rightarrow>
          if v_slice v = None then this
          else updateStatus (Some (v\<lparr>v_slice := slices_Clip (v_slice v)\<rparr>)))"

definition Reverse :: "'a Vector option \<Rightarrow> error option \<times> 'a Vector option" where
  "Reverse this =
     (case this of None \<Rightarrow> (Some (errors_New nilValueAccess), None)
      | Some v \<Rightarrow>
          if v_slice v = None then (Some (errors_New nilValueAccess), this)
          else (None, Some (v\<lparr>v_slice := slices_Reverse (v_slice v)\<rparr>)))"

definition Append :: "runtime \<Rightarrow> (nat \<Rightarrow> nat \<Rightarrow> nat) \<Rightarrow> ('a::zero) Vector option \<Rightarrow> 'a
    \<Rightarrow> (error option \<times> 'a Vector option) res" where
  "Append rt slack this element =
     (case this of None \<Rightarrow> Ret (Some (errors_New nilValueAccess), None)
      | Some v \<Rightarrow>
          (case (if v_slice v = None then New rt else Ret v) of Panic p \<Rightarrow> Panic p
           | Ret w \<Rightarrow>
               (case go_append slack (v_slice w) [element] of Panic p \<Rightarrow> Panic p
                | Ret s \<Rightarrow> Ret (None, updateStatus (Some (w\<lparr>v_slice := s\<rparr>))))))"

text \<open>
  \<^verbatim>\<open>Pop\<close> returns the pair of a value and an error. The test on the index is the
  source's \<^verbatim>\<open>this.__len >= index\<close>; \<^verbatim>\<open>index+1\<close> and \<^verbatim>\<open>this.__cap-1\<close> are \<^verbatim>\<open>uint64\<close>
  arithmetic. \<^verbatim>\<open>this.Clear()\<close> replaces the slice of the receiver before
  \<^verbatim>\<open>copy(this.__slice, safeCopy)\<close> reads it.
\<close>

definition Pop :: "runtime \<Rightarrow> (nat \<Rightarrow> nat \<Rightarrow> nat) \<Rightarrow> ('a::zero) Vector option \<Rightarrow> uint64
    \<Rightarrow> (('a \<times> error option) \<times> 'a Vector option) res" where
  "Pop rt slack this index =
     (case this of None \<Rightarrow> Ret ((0, Some (errors_New nilValueAccess)), None)
      | Some v \<Rightarrow>
          if v_slice v = None then Ret ((0, Some (errors_New nilValueAccess)), this)
          else if v_len v \<ge> index then Ret ((0, Some (errors_New indexOutOfBounds)), this)
          else
           (case go_index (v_slice v) index of Panic p \<Rightarrow> Panic p | Ret defaultValue \<Rightarrow>
           (case go_slice_to (v_slice v) index of Panic p \<Rightarrow> Panic p | Ret leftSide \<Rightarrow>
           (case go_slice_from (v_slice v) (index + 1) of Panic p \<Rightarrow> Panic p | Ret rightSide \<Rightarrow>
           (case go_make rt (v_cap v - 1) of Panic p \<Rightarrow> Panic p | Ret safeCopy0 \<Rightarrow>
           (case go_append slack safeCopy0 (go_elems leftSide) of Panic p \<Rightarrow> Panic p | Ret safeCopy1 \<Rightarrow>
           (case go_append slack safeCopy1 (go_elems rightSide) of Panic p \<Rightarrow> Panic p | Ret safeCopy \<Rightarrow>
           (case Clear rt this of Panic p \<Rightarrow> Panic p
            | Ret None \<Rightarrow> Panic NilDereference
            | Ret (Some w) \<Rightarrow>
                Ret ((defaultValue, None),
                     updateStatus (Some (w\<lparr>v_slice := go_copy (v_slice w) safeCopy\<rparr>)))))))))))"

definition Remove :: "runtime \<Rightarrow> (nat \<Rightarrow> nat \<Rightarrow> nat) \<Rightarrow> ('a::zero) Vector option \<Rightarrow> uint64
    \<Rightarrow> 'a Vector option res" where
  "Remove rt slack this index =
     (case Pop rt slack this index of Panic p \<Rightarrow> Panic p
      | Ret (r, this') \<Rightarrow> (if snd r \<noteq> None then Ret this' else Ret (updateStatus this')))"

text \<open>
  \<^verbatim>\<open>Len\<close> and \<^verbatim>\<open>Cap\<close> refresh the fields before they read them, so they return the
  receiver as well. \<open>updateStatus\<close> keeps a present receiver present: the case \<open>None\<close>
  after it is never taken.
\<close>

definition Len :: "'a Vector option \<Rightarrow> uint64 \<times> 'a Vector option" where
  "Len this =
     (case this of None \<Rightarrow> (0, None)
      | Some v \<Rightarrow>
          if v_slice v = None then (0, this)
          else (case updateStatus this of None \<Rightarrow> (0, None) | Some w \<Rightarrow> (v_len w, Some w)))"

definition Cap :: "'a Vector option \<Rightarrow> uint64 \<times> 'a Vector option" where
  "Cap this =
     (case this of None \<Rightarrow> (0, None)
      | Some v \<Rightarrow>
          if v_slice v = None then (0, this)
          else (case updateStatus this of None \<Rightarrow> (0, None) | Some w \<Rightarrow> (v_cap w, Some w)))"

section \<open>Invariant, reachable vectors and example inputs\<close>

text \<open>
  The data-model invariant: the stored length is the number of elements the slice shows
  and the stored capacity is the size of its array, both read as unsigned numbers. A
  vector without a slice has length and capacity 0.
\<close>

definition vec_inv :: "'a Vector \<Rightarrow> bool" where
  "vec_inv v \<longleftrightarrow>
     unat (v_len v) = go_len (v_slice v) \<and> unat (v_cap v) = go_cap (v_slice v)"

text \<open>The zero value \<^verbatim>\<open>var v Vector[T]\<close>, which no constructor has touched.\<close>

definition zero_value :: "'a Vector" where
  "zero_value = \<lparr>v_slice = None, v_len = 0, v_cap = 0\<rparr>"

text \<open>
  The vectors a client of the package can hold: the zero value, the results of the two
  constructors, and what a method call that returns leaves behind its receiver.
\<close>

inductive reachable :: "runtime \<Rightarrow> (nat \<Rightarrow> nat \<Rightarrow> nat) \<Rightarrow> ('a::zero) Vector \<Rightarrow> bool"
  for rt :: runtime and slack :: "nat \<Rightarrow> nat \<Rightarrow> nat" where
  by_zero_value: "reachable rt slack zero_value"
| by_WithCapacity: "WithCapacity rt c = Ret v \<Longrightarrow> reachable rt slack v"
| by_New: "New rt = Ret v \<Longrightarrow> reachable rt slack v"
| by_AddCapacity: "reachable rt slack v \<Longrightarrow> AddCapacity rt slack (Some v) c = Ret (e, Some w) \<Longrightarrow> reachable rt slack w"
| by_Clear: "reachable rt slack v \<Longrightarrow> Clear rt (Some v) = Ret (Some w) \<Longrightarrow> reachable rt slack w"
| by_Strip: "reachable rt slack v \<Longrightarrow> Strip (Some v) = Some w \<Longrightarrow> reachable rt slack w"
| by_Reverse: "reachable rt slack v \<Longrightarrow> Reverse (Some v) = (e, Some w) \<Longrightarrow> reachable rt slack w"
| by_Append: "reachable rt slack v \<Longrightarrow> Append rt slack (Some v) x = Ret (e, Some w) \<Longrightarrow> reachable rt slack w"
| by_Pop: "reachable rt slack v \<Longrightarrow> Pop rt slack (Some v) i = Ret (r, Some w) \<Longrightarrow> reachable rt slack w"
| by_Remove: "reachable rt slack v \<Longrightarrow> Remove rt slack (Some v) i = Ret (Some w) \<Longrightarrow> reachable rt slack w"
| by_Len: "reachable rt slack v \<Longrightarrow> Len (Some v) = (n, Some w) \<Longrightarrow> reachable rt slack w"
| by_Cap: "reachable rt slack v \<Longrightarrow> Cap (Some v) = (n, Some w) \<Longrightarrow> reachable rt slack w"

code_pred reachable .

text \<open>
  A client that appends the elements of a list one after the other; the result holds
  the error each \<^verbatim>\<open>Append\<close> returned and the receiver after the last one.
\<close>

fun Appends :: "runtime \<Rightarrow> (nat \<Rightarrow> nat \<Rightarrow> nat) \<Rightarrow> ('a::zero) Vector option \<Rightarrow> 'a list
    \<Rightarrow> (error option list \<times> 'a Vector option) res" where
  "Appends rt slack this [] = Ret ([], this)"
| "Appends rt slack this (x # xs) =
     (case Append rt slack this x of Panic p \<Rightarrow> Panic p
      | Ret (e, this') \<Rightarrow>
          (case Appends rt slack this' xs of Panic p \<Rightarrow> Panic p
           | Ret (es, this'') \<Rightarrow> Ret (e # es, this'')))"

text \<open>
  Concrete inputs. \<open>amd64_int\<close> is the run time of linux/amd64 for a vector of \<^verbatim>\<open>int\<close>
  on a machine with 16 GiB to give: \<^verbatim>\<open>maxAlloc\<close> is \<^verbatim>\<open>1 << 48\<close> and an \<^verbatim>\<open>int\<close> has 8
  bytes. \<open>doubling\<close> is a growth policy that doubles the capacity, as the Go run time
  does for small slices. \<open>fresh_vec\<close> is what \<^verbatim>\<open>New[int]()\<close> returns and
  \<open>example_vec\<close> is that vector after \<^verbatim>\<open>Append(10)\<close>, \<^verbatim>\<open>Append(20)\<close>, \<^verbatim>\<open>Append(30)\<close>.
\<close>

definition amd64_int :: runtime where
  "amd64_int = \<lparr>maxAlloc = 2 ^ 48, elem_size = 8, free_mem = 2 ^ 34\<rparr>"

definition doubling :: "nat \<Rightarrow> nat \<Rightarrow> nat" where
  "doubling c n = max n (2 * c) - n"

definition fresh_vec :: "int Vector" where
  "fresh_vec = \<lparr>v_slice = Some \<lparr>elems = [], spare = []\<rparr>, v_len = 0, v_cap = 0\<rparr>"

definition example_vec :: "int Vector" where
  "example_vec = \<lparr>v_slice = Some \<lparr>elems = [10, 20, 30], spare = [0]\<rparr>, v_len = 3, v_cap = 4\<rparr>"

section \<open>The earlier revisions\<close>

text \<open>
  \<^verbatim>\<open>src/unnamed/part_000\<close> holds two earlier revisions of the same file. Their
  \<^verbatim>\<open>WithCapacity\<close>, \<^verbatim>\<open>New\<close>, \<^verbatim>\<open>AddCapacity\<close>, \<^verbatim>\<open>Clear\<close>, \<^verbatim>\<open>Reverse\<close>, \<^verbatim>\<open>Append\<close> and
  \<^verbatim>\<open>Pop\<close> are the functions above, with the same test \<^verbatim>\<open>length >= index\<close> in \<^verbatim>\<open>Pop\<close>.
  Three methods differ: \<^verbatim>\<open>Len\<close> and \<^verbatim>\<open>Cap\<close> of the first revision return the stored
  field without refreshing it, and \<^verbatim>\<open>Strip\<close> of both does not test the slice for nil
  (\<^verbatim>\<open>slices.Clip\<close> of the nil slice is the nil slice).
\<close>

definition Len_old :: "'a Vector option \<Rightarrow> uint64" where
  "Len_old this = (case this of None \<Rightarrow> 0 | Some v \<Rightarrow> v_len v)"

definition Cap_old :: "'a Vector option \<Rightarrow> uint64" where
  "Cap_old this = (case this of None \<Rightarrow> 0 | Some v \<Rightarrow> v_cap v)"

definition Strip_old :: "'a Vector option \<Rightarrow> 'a Vector option" where
  "Strip_old this =
     (case this of None \<Rightarrow> None
      | Some v \<Rightarrow> updateStatus (Some (v\<lparr>v_slice := slices_Clip (v_slice v)\<rparr>)))"

section \<open>Basic facts\<close>

lemma errors_distinct: "nilValueAccess \<noteq> indexOutOfBounds"
  by (simp add: nilValueAccess_def indexOutOfBounds_def)

lemma New_eq: "New rt = Ret \<lparr>v_slice = Some \<lparr>elems = [], spare = []\<rparr>, v_len = 0, v_cap = 0\<rparr>"
  by (simp add: New_def WithCapacity_def go_make_def)

lemma WithCapacity_Ret:
  "unat c \<le> max_int \<Longrightarrow> elem_size rt * unat c \<le> maxAlloc rt \<Longrightarrow>
   elem_size rt * unat c \<le> free_mem rt \<Longrightarrow>
   WithCapacity rt c = Ret \<lparr>v_slice = Some \<lparr>elems = [], spare = replicate (unat c) 0\<rparr>, v_len = 0, v_cap = c\<rparr>"
  by (simp add: WithCapacity_def go_make_def)

lemma WithCapacity_Panic:
  "max_int < unat c \<or> maxAlloc rt < elem_size rt * unat c \<Longrightarrow>
   WithCapacity rt c = Panic MakeCapOutOfRange"
  by (simp add: WithCapacity_def go_make_def)

lemma WithCapacity_cases:
  "WithCapacity rt c = Ret v \<Longrightarrow>
   v = \<lparr>v_slice = Some \<lparr>elems = [], spare = replicate (unat c) 0\<rparr>, v_len = 0, v_cap = c\<rparr>"
  by (auto simp: WithCapacity_def go_make_def split: if_splits)

lemma go_len_le_cap: "go_len s \<le> go_cap s"
  by (simp add: go_len_def go_cap_def split: option.splits)

lemma vec_inv_zero_value: "vec_inv zero_value"
  by (simp add: vec_inv_def zero_value_def go_len_def go_cap_def)

lemma vec_inv_WithCapacity: "WithCapacity rt c = Ret v \<Longrightarrow> vec_inv v"
  by (drule WithCapacity_cases) (simp add: vec_inv_def go_len_def go_cap_def)

lemma vec_inv_nil: "vec_inv v \<Longrightarrow> v_slice v = None \<Longrightarrow> v = zero_value"
  by (cases v) (simp add: vec_inv_def zero_value_def go_len_def go_cap_def unat_eq_0)

lemma vec_inv_updateStatus:
  assumes "go_cap (v_slice v) < 2 ^ 64" and "v_slice v \<noteq> None"
    and "updateStatus (Some v) = Some w"
  shows "vec_inv w \<and> v_slice w = v_slice v"
proof -
  have "go_len (v_slice v) < 2 ^ 64"
    using assms(1) go_len_le_cap [of "v_slice v"] by simp
  with assms show ?thesis
    by (auto simp: updateStatus_def vec_inv_def unat_of_nat)
qed

lemma word_of_nat_eq_unat: "unat (w :: uint64) = n \<Longrightarrow> word_of_nat n = w"
  by auto

lemma updateStatus_vec_inv: "vec_inv v \<Longrightarrow> updateStatus (Some v) = Some v"
  by (simp add: updateStatus_def vec_inv_def word_of_nat_eq_unat)

lemma go_cap_bound: "vec_inv v \<Longrightarrow> go_cap (v_slice v) < 2 ^ 64"
proof -
  assume "vec_inv v"
  moreover have "unat (v_cap v) < 2 ^ LENGTH(64)"
    by (rule unsigned_less)
  ultimately show ?thesis
    by (simp add: vec_inv_def)
qed

lemma go_append_elems: "go_append slack s xs = Ret t \<Longrightarrow> go_elems t = go_elems s @ xs"
  by (auto simp: go_append_def go_elems_def Let_def go_len_def go_cap_def split: if_splits option.splits)

lemma go_append_cap:
  "go_append slack s xs = Ret t \<Longrightarrow> go_cap s < 2 ^ 64 \<Longrightarrow> go_cap t < 2 ^ 64"
  by (auto simp: go_append_def Let_def go_len_def go_cap_def go_elems_def max_int_def min_def
      split: if_splits option.splits)

lemma go_append_nonnil: "go_append slack s xs = Ret t \<Longrightarrow> xs \<noteq> [] \<Longrightarrow> t \<noteq> None"
  by (auto simp: go_append_def Let_def go_len_def go_cap_def split: if_splits option.splits)

lemma go_append_Ret: "go_len s + length xs \<le> max_int \<Longrightarrow> \<exists>t. go_append slack s xs = Ret t"
  by (auto simp: go_append_def Let_def split: option.splits)

lemma go_append_nil: "go_append slack s [] = Ret s"
  using go_len_le_cap [of s]
  by (cases s) (auto simp: go_append_def Let_def go_len_def go_cap_def)

lemma go_len_elems: "go_len s = length (go_elems s)"
  by (simp add: go_len_def go_elems_def split: option.splits)

section \<open>What each operation does to the invariant\<close>

text \<open>
  With the invariant, \<^verbatim>\<open>Pop\<close> has two outcomes on a vector that has a slice: the
  bounds error when the index is at most the length, and the panic of \<^verbatim>\<open>this.__slice[index]\<close>
  when it is above.
\<close>

lemma Pop_vec_inv:
  assumes "vec_inv v" and "v_slice v = Some a"
  shows "Pop rt slack (Some v) i =
     (if unat i \<le> length (elems a) then Ret ((0, Some (errors_New indexOutOfBounds)), Some v)
      else Panic IndexOutOfRange)"
  using assms
  by (simp add: Pop_def vec_inv_def go_index_def go_len_def word_le_nat_alt)

lemma Pop_nil_slice:
  "v_slice v = None \<Longrightarrow> Pop rt slack (Some v) i = Ret ((0, Some (errors_New nilValueAccess)), Some v)"
  by (simp add: Pop_def)

lemma Pop_vec_inv_Ret:
  assumes "vec_inv v" and "Pop rt slack (Some v) i = Ret (r, t)"
  shows "t = Some v \<and> snd r \<noteq> None"
proof (cases "v_slice v")
  case None
  with assms show ?thesis by (auto simp: Pop_nil_slice)
next
  case (Some a)
  with assms show ?thesis by (auto simp: Pop_vec_inv split: if_splits)
qed

lemma Remove_vec_inv_Ret:
  assumes "vec_inv v" and "Remove rt slack (Some v) i = Ret t"
  shows "t = Some v"
  using assms
  by (auto simp: Remove_def split: res.splits prod.splits if_splits dest: Pop_vec_inv_Ret)

lemma vec_inv_AddCapacity:
  assumes "AddCapacity rt slack (Some v) c = Ret (e, Some w)"
  shows "vec_inv w \<and> v_slice w \<noteq> None"
proof (cases "v_slice v")
  case None
  with assms show ?thesis
    by (auto simp: AddCapacity_def split: res.splits dest: vec_inv_WithCapacity WithCapacity_cases)
next
  case (Some a)
  from assms Some obtain u where u: "WithCapacity rt (word_of_nat (go_cap (go_copy None (v_slice v))) + c) = Ret u"
    and w: "updateStatus (Some (u\<lparr>v_slice := v_slice u\<rparr>)) = Some w"
    by (auto simp: AddCapacity_def Let_def go_copy_def go_elems_def go_append_nil split: res.splits)
  have "vec_inv u" using u by (rule vec_inv_WithCapacity)
  moreover have "v_slice u \<noteq> None" using WithCapacity_cases [OF u] by simp
  ultimately show ?thesis using w by (auto simp: updateStatus_vec_inv)
qed

lemma vec_inv_Clear:
  assumes "Clear rt (Some v) = Ret (Some w)"
  shows "vec_inv w \<and> v_slice w \<noteq> None"
  using assms
  by (auto simp: Clear_def New_eq updateStatus_def vec_inv_def go_len_def go_cap_def)

lemma vec_inv_Strip:
  assumes "vec_inv v" and "Strip (Some v) = Some w"
  shows "vec_inv w"
proof (cases "v_slice v")
  case None
  with assms show ?thesis by (simp add: Strip_def)
next
  case (Some a)
  let ?u = "v\<lparr>v_slice := slices_Clip (v_slice v)\<rparr>"
  have "go_cap (v_slice ?u) \<le> go_cap (v_slice v)"
    using Some by (simp add: slices_Clip_def go_cap_def)
  then have "go_cap (v_slice ?u) < 2 ^ 64"
    using go_cap_bound [OF assms(1)] by simp
  moreover have "v_slice ?u \<noteq> None"
    using Some by (simp add: slices_Clip_def)
  moreover have "updateStatus (Some ?u) = Some w"
    using assms(2) Some by (simp add: Strip_def)
  ultimately show ?thesis
    using vec_inv_updateStatus by blast
qed

lemma vec_inv_Reverse:
  assumes "vec_inv v" and "Reverse (Some v) = (e, Some w)"
  shows "vec_inv w"
  using assms
  by (cases "v_slice v")
     (auto simp: Reverse_def vec_inv_def slices_Reverse_def go_len_def go_cap_def)

lemma vec_inv_Append:
  assumes "vec_inv v" and "Append rt slack (Some v) x = Ret (e, Some w)"
  shows "vec_inv w \<and> e = None \<and> go_elems (v_slice w) = go_elems (v_slice v) @ [x] \<and> v_slice w \<noteq> None"
proof -
  define u where "u = (if v_slice v = None
     then \<lparr>v_slice = Some \<lparr>elems = [], spare = []\<rparr>, v_len = 0, v_cap = 0\<rparr> else v)"
  have u_inv: "vec_inv u"
    using assms(1) by (simp add: u_def vec_inv_def go_len_def go_cap_def)
  have u_elems: "go_elems (v_slice u) = go_elems (v_slice v)"
    by (simp add: u_def go_elems_def)
  from assms(2) obtain s where s: "go_append slack (v_slice u) [x] = Ret s"
    and w: "updateStatus (Some (u\<lparr>v_slice := s\<rparr>)) = Some w" and e: "e = None"
    by (auto simp: Append_def New_eq u_def split: res.splits if_splits)
  have "go_cap s < 2 ^ 64"
    using go_append_cap [OF s] go_cap_bound [OF u_inv] by simp
  moreover have "s \<noteq> None"
    using go_append_nonnil [OF s] by simp
  ultimately have "vec_inv w \<and> v_slice w = s"
    using vec_inv_updateStatus [of "u\<lparr>v_slice := s\<rparr>" w] w by simp
  then show ?thesis
    using go_append_elems [OF s] u_elems e \<open>s \<noteq> None\<close> by simp
qed

lemma vec_inv_Len:
  assumes "vec_inv v" and "Len (Some v) = (n, Some w)"
  shows "w = v \<and> n = v_len v"
  using assms
  by (cases "v_slice v") (auto simp: Len_def updateStatus_vec_inv vec_inv_def go_len_def unat_eq_0)

lemma vec_inv_Cap:
  assumes "vec_inv v" and "Cap (Some v) = (n, Some w)"
  shows "w = v \<and> n = v_cap v"
  using assms
  by (cases "v_slice v") (auto simp: Cap_def updateStatus_vec_inv vec_inv_def go_cap_def unat_eq_0)

lemma reachable_vec_inv: "reachable rt slack v \<Longrightarrow> vec_inv v"
proof (induction rule: reachable.induct)
  case by_zero_value
  show ?case by (rule vec_inv_zero_value)
next
  case (by_WithCapacity c v)
  then show ?case by (rule vec_inv_WithCapacity)
next
  case (by_New v)
  then show ?case unfolding New_def by (rule vec_inv_WithCapacity)
next
  case (by_AddCapacity v c e w)
  then show ?case using vec_inv_AddCapacity by blast
next
  case (by_Clear v w)
  then show ?case using vec_inv_Clear by blast
next
  case (by_Strip v w)
  then show ?case using vec_inv_Strip by blast
next
  case (by_Reverse v e w)
  then show ?case using vec_inv_Reverse by blast
next
  case (by_Append v x e w)
  then show ?case using vec_inv_Append by blast
next
  case (by_Pop v i r w)
  then show ?case using Pop_vec_inv_Ret by blast
next
  case (by_Remove v i w)
  then show ?case using Remove_vec_inv_Ret by blast
next
  case (by_Len v n w)
  then show ?case using vec_inv_Len by blast
next
  case (by_Cap v n w)
  then show ?case using vec_inv_Cap by blast
qed

lemma Append_Ret:
  assumes "vec_inv v" and "go_len (v_slice v) < max_int"
  shows "\<exists>w. Append rt slack (Some v) x = Ret (None, Some w)"
proof -
  define u where "u = (if v_slice v = None
     then \<lparr>v_slice = Some \<lparr>elems = [], spare = []\<rparr>, v_len = 0, v_cap = 0\<rparr> else v)"
  have "go_len (v_slice u) = go_len (v_slice v)"
    by (simp add: u_def go_len_def)
  then have "go_len (v_slice u) + length [x] \<le> max_int"
    using assms(2) by simp
  then obtain s where s: "go_append slack (v_slice u) [x] = Ret s"
    using go_append_Ret by blast
  have "s \<noteq> None"
    using go_append_nonnil [OF s] by simp
  then obtain w where "updateStatus (Some (u\<lparr>v_slice := s\<rparr>)) = Some w"
    by (auto simp: updateStatus_def)
  with s show ?thesis
    by (auto simp: Append_def New_eq u_def)
qed

lemma Appends_vec_inv:
  assumes "vec_inv v" and "go_len (v_slice v) + length xs \<le> max_int"
  shows "\<exists>w. Appends rt slack (Some v) xs = Ret (replicate (length xs) None, Some w) \<and> vec_inv w
           \<and> go_elems (v_slice w) = go_elems (v_slice v) @ xs"
  using assms
proof (induction xs arbitrary: v)
  case Nil
  then show ?case by simp
next
  case (Cons x xs)
  from Cons.prems obtain u where u: "Append rt slack (Some v) x = Ret (None, Some u)"
    using Append_Ret [where v = v and rt = rt and slack = slack and x = x] by auto
  have u_inv: "vec_inv u" and u_elems: "go_elems (v_slice u) = go_elems (v_slice v) @ [x]"
    using vec_inv_Append [OF Cons.prems(1) u] by simp_all
  have "go_len (v_slice u) + length xs \<le> max_int"
    using Cons.prems(2) u_elems by (simp add: go_len_elems)
  from Cons.IH [OF u_inv this] obtain w where
    "Appends rt slack (Some u) xs = Ret (replicate (length xs) None, Some w)" "vec_inv w"
    "go_elems (v_slice w) = go_elems (v_slice u) @ xs"
    by blast
  with u u_elems show ?case by simp
qed

lemma Len_vec_inv: "vec_inv v \<Longrightarrow> Len (Some v) = (v_len v, Some v)"
  by (cases "v_slice v") (auto simp: Len_def updateStatus_vec_inv vec_inv_def go_len_def unat_eq_0)

lemma Cap_vec_inv: "vec_inv v \<Longrightarrow> Cap (Some v) = (v_cap v, Some v)"
  by (cases "v_slice v") (auto simp: Cap_def updateStatus_vec_inv vec_inv_def go_cap_def unat_eq_0)

section \<open>The example vectors\<close>

lemma vec_inv_example_vec: "vec_inv example_vec"
  by (simp add: vec_inv_def example_vec_def go_len_def go_cap_def)

lemma reachable_example_vec: "reachable amd64_int doubling example_vec"
proof -
  have a: "reachable amd64_int doubling fresh_vec"
    by (rule by_New) (simp add: New_eq fresh_vec_def)
  let ?v1 = "\<lparr>v_slice = Some \<lparr>elems = [10], spare = []\<rparr>, v_len = 1, v_cap = 1\<rparr> :: int Vector"
  let ?v2 = "\<lparr>v_slice = Some \<lparr>elems = [10, 20], spare = []\<rparr>, v_len = 2, v_cap = 2\<rparr> :: int Vector"
  have "Append amd64_int doubling (Some fresh_vec) 10 = Ret (None, Some ?v1)"
    by (simp add: fresh_vec_def Append_def go_append_def go_len_def go_cap_def
        go_elems_def updateStatus_def Let_def max_int_def doubling_def)
  with a have b: "reachable amd64_int doubling ?v1" by (rule by_Append)
  have "Append amd64_int doubling (Some ?v1) 20 = Ret (None, Some ?v2)"
    by (simp add: Append_def go_append_def go_len_def go_cap_def
        go_elems_def updateStatus_def Let_def max_int_def doubling_def)
  with b have c: "reachable amd64_int doubling ?v2" by (rule by_Append)
  have "Append amd64_int doubling (Some ?v2) 30 = Ret (None, Some example_vec)"
    by (simp add: example_vec_def Append_def go_append_def go_len_def go_cap_def
        go_elems_def updateStatus_def Let_def max_int_def doubling_def)
  with c show ?thesis by (rule by_Append)
qed

section \<open>The earlier revisions and the rest of Pop\<close>

lemma Strip_old_eq: "Strip_old this = Strip this"
proof (cases this)
  case None
  then show ?thesis by (simp add: Strip_old_def Strip_def)
next
  case (Some v)
  then show ?thesis
    by (cases v) (auto simp: Strip_old_def Strip_def slices_Clip_def updateStatus_def)
qed

lemma Len_old_eq: "vec_inv v \<Longrightarrow> Len_old (Some v) = fst (Len (Some v))"
  by (simp add: Len_old_def Len_vec_inv)

lemma Cap_old_eq: "vec_inv v \<Longrightarrow> Cap_old (Some v) = fst (Cap (Some v))"
  by (simp add: Cap_old_def Cap_vec_inv)

text \<open>
  The statements of \<^verbatim>\<open>Pop\<close> behind the test are never run on a vector that satisfies
  the invariant. On a record that does not, here with a stored length of 0 for three
  elements, they return the element and leave the vector empty: \<^verbatim>\<open>this.Clear()\<close>
  installs an empty slice and \<^verbatim>\<open>copy(this.__slice, safeCopy)\<close> copies nothing into it.
\<close>

lemma Pop_behind_the_test:
  "Pop amd64_int doubling (Some (example_vec\<lparr>v_len := 0\<rparr>)) 1 = Ret ((20, None), Some fresh_vec)"
  by (simp add: Pop_def example_vec_def fresh_vec_def word_le_nat_alt go_index_def go_slice_to_def
      go_slice_from_def go_make_def go_append_def go_copy_def go_len_def go_cap_def go_elems_def
      Clear_def New_eq updateStatus_def max_int_def amd64_int_def Let_def)

section \<open>The claims\<close>

text \<open>
  C1. The claim: for an index below the length, \<^verbatim>\<open>Pop\<close> removes and returns the element
  at the index, and \<^verbatim>\<open>Append\<close> followed by \<^verbatim>\<open>Pop(length-1)\<close> returns the appended
  element. The code at the vector \<open>[10, 20, 30]\<close>, built by \<^verbatim>\<open>New\<close> and three calls of
  \<^verbatim>\<open>Append\<close>: \<^verbatim>\<open>Pop(1)\<close> and \<^verbatim>\<open>Pop(2)\<close> both return the zero value with the
  index-out-of-bounds error and leave the vector as it was.
\<close>

theorem C1_Pop_rejects_index_below_length:
  "New amd64_int = Ret fresh_vec
   \<and> Appends amd64_int doubling (Some fresh_vec) [10, 20, 30] = Ret ([None, None, None], Some example_vec)
   \<and> Pop amd64_int doubling (Some example_vec) 1
       = Ret ((0, Some (errors_New indexOutOfBounds)), Some example_vec)
   \<and> Pop amd64_int doubling (Some example_vec) 2
       = Ret ((0, Some (errors_New indexOutOfBounds)), Some example_vec)"
proof -
  have "Appends amd64_int doubling (Some fresh_vec) [10, 20, 30] = Ret ([None, None, None], Some example_vec)"
    by (simp add: fresh_vec_def example_vec_def Append_def go_append_def go_len_def go_cap_def
        go_elems_def updateStatus_def Let_def max_int_def doubling_def)
  moreover have "Pop amd64_int doubling (Some example_vec) 1
      = Ret ((0, Some (errors_New indexOutOfBounds)), Some example_vec)"
    by (simp add: Pop_def example_vec_def word_le_nat_alt)
  moreover have "Pop amd64_int doubling (Some example_vec) 2
      = Ret ((0, Some (errors_New indexOutOfBounds)), Some example_vec)"
    by (simp add: Pop_def example_vec_def word_le_nat_alt)
  ultimately show ?thesis
    by (simp add: New_eq fresh_vec_def)
qed

text \<open>
  C2. The claim: \<^verbatim>\<open>AddCapacity(extra)\<close> on a vector with a slice adds \<open>extra\<close> to the
  capacity and keeps the elements. The code at the vector \<open>[10, 20, 30]\<close> of capacity 4
  and \<open>extra = 5\<close>: the call returns the nil error and leaves an empty vector of capacity
  5, because \<^verbatim>\<open>copy(safeCopy, this.__slice)\<close> copies into the nil slice. On the zero value
  the call allocates a slice of capacity 5, as the claim says.
\<close>

theorem C2_AddCapacity_drops_elements:
  "AddCapacity amd64_int doubling (Some example_vec) 5
     = Ret (None, Some \<lparr>v_slice = Some \<lparr>elems = [], spare = replicate 5 0\<rparr>, v_len = 0, v_cap = 5\<rparr>)
   \<and> AddCapacity amd64_int doubling (Some (zero_value :: int Vector)) 5
     = Ret (None, Some \<lparr>v_slice = Some \<lparr>elems = [], spare = replicate 5 0\<rparr>, v_len = 0, v_cap = 5\<rparr>)"
  by (simp add: AddCapacity_def example_vec_def zero_value_def go_copy_def WithCapacity_def go_make_def
      go_append_def go_len_def go_cap_def go_elems_def max_int_def amd64_int_def updateStatus_def)

text \<open>
  C3. The claim: for an index at or above the length, \<^verbatim>\<open>Pop\<close> returns the
  index-out-of-bounds error and changes nothing. The code at the vector \<open>[10, 20, 30]\<close>:
  at index 3, the length, it does so, and on the zero value it returns the nil-access
  error; at index 7 the test \<^verbatim>\<open>this.__len >= index\<close> fails and
  \<^verbatim>\<open>this.__slice[index]\<close> panics.
\<close>

theorem C3_Pop_panics_above_length:
  "Pop amd64_int doubling (Some example_vec) 3
     = Ret ((0, Some (errors_New indexOutOfBounds)), Some example_vec)
   \<and> Pop amd64_int doubling (Some (zero_value :: int Vector)) 7
     = Ret ((0, Some (errors_New nilValueAccess)), Some zero_value)
   \<and> Pop amd64_int doubling (Some example_vec) 7 = Panic IndexOutOfRange"
  by (simp add: Pop_def example_vec_def zero_value_def word_le_nat_alt go_index_def go_len_def)

text \<open>
  C4. The claim: no operation panics. The code: \<^verbatim>\<open>Pop(1)\<close> on the vector that
  \<^verbatim>\<open>New()\<close> returns panics with an index out of range, and so does \<^verbatim>\<open>Remove(1)\<close>, which
  calls it.
\<close>

theorem C4_Pop_panics_on_new_vector:
  "New amd64_int = Ret fresh_vec
   \<and> Pop amd64_int doubling (Some fresh_vec) 1 = Panic IndexOutOfRange
   \<and> Remove amd64_int doubling (Some fresh_vec) 1 = Panic IndexOutOfRange"
  by (simp add: New_eq Remove_def Pop_def fresh_vec_def word_le_nat_alt go_index_def go_len_def)

text \<open>
  C5. A sequence of \<open>n\<close> calls of \<^verbatim>\<open>Append\<close> on a freshly constructed vector
  (\<^verbatim>\<open>New()\<close> or \<^verbatim>\<open>WithCapacity(c)\<close>), for every \<open>n\<close> a Go \<^verbatim>\<open>int\<close> can hold: every call
  returns the nil error, \<^verbatim>\<open>Len()\<close> afterwards is \<open>n\<close>, and the slice shows exactly the
  appended elements in the order of the calls.
\<close>

theorem C5_appends_in_order:
  assumes "New rt = Ret v \<or> WithCapacity rt c = Ret v" and "length xs \<le> max_int"
  shows "\<exists>w. Appends rt slack (Some v) xs = Ret (replicate (length xs) None, Some w)
           \<and> unat (fst (Len (Some w))) = length xs
           \<and> go_elems (v_slice w) = xs"
proof -
  from assms(1) obtain c' where c': "WithCapacity rt c' = Ret v"
    by (auto simp: New_def)
  have v_inv: "vec_inv v"
    using c' by (rule vec_inv_WithCapacity)
  have v_elems: "go_elems (v_slice v) = []"
    using WithCapacity_cases [OF c'] by (simp add: go_elems_def)
  have "go_len (v_slice v) + length xs \<le> max_int"
    using assms(2) v_elems by (simp add: go_len_elems)
  from Appends_vec_inv [OF v_inv this] obtain w where
    w: "Appends rt slack (Some v) xs = Ret (replicate (length xs) None, Some w)" "vec_inv w"
      "go_elems (v_slice w) = go_elems (v_slice v) @ xs"
    by blast
  have "unat (fst (Len (Some w))) = length xs"
    using w(2,3) v_elems by (simp add: Len_vec_inv vec_inv_def go_len_elems)
  with w v_elems show ?thesis by simp
qed

theorem C5_appends_in_order_witness:
  "(New amd64_int = Ret fresh_vec \<or> WithCapacity amd64_int 0 = Ret fresh_vec) \<and> length [10, 20, 30 :: int] \<le> max_int
   \<and> Appends amd64_int doubling (Some fresh_vec) [10, 20, 30] = Ret ([None, None, None], Some example_vec)
   \<and> unat (fst (Len (Some example_vec))) = 3
   \<and> go_elems (v_slice example_vec) = [10, 20, 30]"
proof -
  have a: "New amd64_int = Ret fresh_vec \<or> WithCapacity amd64_int 0 = Ret fresh_vec"
    by (simp add: New_eq fresh_vec_def)
  have b: "length [10, 20, 30 :: int] \<le> max_int"
    by (simp add: max_int_def)
  have c: "Appends amd64_int doubling (Some fresh_vec) [10, 20, 30] = Ret ([None, None, None], Some example_vec)"
    by (simp add: fresh_vec_def example_vec_def Append_def go_append_def go_len_def go_cap_def
        go_elems_def updateStatus_def Let_def max_int_def doubling_def)
  from C5_appends_in_order [OF a b, where slack = doubling] c a b show ?thesis
    by (simp add: numeral_3_eq_3)
qed

text \<open>
  C6. Every vector a client can reach, from the zero value or a constructor through any
  calls that return, satisfies the data-model invariant: the stored length is the number
  of elements the slice shows, the stored capacity is the size of the slice's array, and
  the length is at most the capacity.
\<close>

theorem C6_reachable_invariant:
  assumes "reachable rt slack v"
  shows "unat (v_len v) = length (go_elems (v_slice v))
       \<and> unat (v_cap v) = go_cap (v_slice v)
       \<and> v_len v \<le> v_cap v"
proof -
  have inv: "vec_inv v"
    using assms by (rule reachable_vec_inv)
  then have "unat (v_len v) \<le> unat (v_cap v)"
    using go_len_le_cap [of "v_slice v"] by (simp add: vec_inv_def)
  with inv show ?thesis
    by (simp add: vec_inv_def go_len_elems word_le_nat_alt)
qed

theorem C6_reachable_invariant_witness:
  "reachable amd64_int doubling example_vec
   \<and> unat (v_len example_vec) = length (go_elems (v_slice example_vec))
   \<and> unat (v_cap example_vec) = go_cap (v_slice example_vec)
   \<and> v_len example_vec \<le> v_cap example_vec"
  using C6_reachable_invariant [OF reachable_example_vec] reachable_example_vec by simp

text \<open>
  C7. \<^verbatim>\<open>Strip()\<close> does not change what \<^verbatim>\<open>Len()\<close> returns, and after it \<^verbatim>\<open>Cap()\<close> returns
  what \<^verbatim>\<open>Len()\<close> returns, for every receiver; on the nil receiver and on a vector
  without a slice it changes nothing.
\<close>

theorem C7_Strip:
  "fst (Len (Strip this)) = fst (Len this)
   \<and> fst (Cap (Strip this)) = fst (Len (Strip this))
   \<and> Strip None = None
   \<and> Strip (Some (v\<lparr>v_slice := None\<rparr>)) = Some (v\<lparr>v_slice := None\<rparr>)"
proof -
  have "fst (Len (Strip this)) = fst (Len this) \<and> fst (Cap (Strip this)) = fst (Len (Strip this))"
  proof (cases this)
    case None
    then show ?thesis by (simp add: Strip_def Len_def Cap_def)
  next
    case (Some u)
    then show ?thesis
      by (cases "v_slice u")
         (simp_all add: Strip_def Len_def Cap_def updateStatus_def slices_Clip_def go_len_def go_cap_def)
  qed
  then show ?thesis by (simp add: Strip_def)
qed

text \<open>
  C8. On a vector with a slice \<^verbatim>\<open>Reverse()\<close> returns the nil error and reverses the
  elements; a second call restores the vector; with at most one element the call leaves
  the vector as it was.
\<close>

theorem C8_Reverse_twice:
  assumes "v_slice v = Some a"
  shows "\<exists>w. Reverse (Some v) = (None, Some w)
           \<and> go_elems (v_slice w) = rev (elems a)
           \<and> Reverse (Some w) = (None, Some v)
           \<and> (length (elems a) \<le> 1 \<longrightarrow> w = v)"
proof -
  have "length (elems a) \<le> 1 \<Longrightarrow> rev (elems a) = elems a"
    by (cases "elems a") simp_all
  with assms show ?thesis
    by (cases v) (auto simp: Reverse_def slices_Reverse_def go_elems_def)
qed

theorem C8_Reverse_twice_witness:
  "v_slice example_vec = Some \<lparr>elems = [10, 20, 30], spare = [0]\<rparr>
   \<and> (\<exists>w. Reverse (Some example_vec) = (None, Some w)
        \<and> go_elems (v_slice w) = [30, 20, 10]
        \<and> Reverse (Some w) = (None, Some example_vec))
   \<and> v_slice fresh_vec = Some \<lparr>elems = [], spare = []\<rparr>
   \<and> length (elems \<lparr>elems = [] :: int list, spare = []\<rparr>) \<le> 1
   \<and> Reverse (Some fresh_vec) = (None, Some fresh_vec)"
proof -
  have a: "v_slice example_vec = Some \<lparr>elems = [10, 20, 30], spare = [0]\<rparr>"
    by (simp add: example_vec_def)
  have b: "v_slice fresh_vec = Some \<lparr>elems = [], spare = []\<rparr>"
    by (simp add: fresh_vec_def)
  from C8_Reverse_twice [OF a] C8_Reverse_twice [OF b] a b show ?thesis
    by auto
qed

text \<open>
  C9. On a vector with a slice that satisfies the invariant, \<^verbatim>\<open>Pop(index)\<close> returns the
  index-out-of-bounds error and leaves the vector unchanged for every index up to the
  length; for an index above the length it panics in \<^verbatim>\<open>this.__slice[index]\<close>. So no
  call of \<^verbatim>\<open>Pop\<close> returns an element with the nil error.
\<close>

theorem C9_Pop_never_returns_element:
  assumes "vec_inv v" and "v_slice v = Some a"
  shows "(unat index \<le> length (elems a) \<longrightarrow>
            Pop rt slack (Some v) index = Ret ((0, Some (errors_New indexOutOfBounds)), Some v))
       \<and> (length (elems a) < unat index \<longrightarrow> Pop rt slack (Some v) index = Panic IndexOutOfRange)
       \<and> (\<forall>x t. Pop rt slack (Some v) index \<noteq> Ret ((x, None), t))"
  using assms by (simp add: Pop_vec_inv)

theorem C9_Pop_never_returns_element_witness:
  "vec_inv example_vec \<and> v_slice example_vec = Some \<lparr>elems = [10, 20, 30], spare = [0]\<rparr>
   \<and> unat (1 :: uint64) \<le> length (elems \<lparr>elems = [10, 20, 30 :: int], spare = [0]\<rparr>)
   \<and> Pop amd64_int doubling (Some example_vec) 1 = Ret ((0, Some (errors_New indexOutOfBounds)), Some example_vec)
   \<and> length (elems \<lparr>elems = [10, 20, 30 :: int], spare = [0]\<rparr>) < unat (4 :: uint64)
   \<and> Pop amd64_int doubling (Some example_vec) 4 = Panic IndexOutOfRange"
proof -
  have a: "v_slice example_vec = Some \<lparr>elems = [10, 20, 30], spare = [0]\<rparr>"
    by (simp add: example_vec_def)
  from C9_Pop_never_returns_element
      [OF vec_inv_example_vec a, where index = 1 and rt = amd64_int and slack = doubling]
    C9_Pop_never_returns_element
      [OF vec_inv_example_vec a, where index = 4 and rt = amd64_int and slack = doubling]
    vec_inv_example_vec a
  show ?thesis by simp
qed

text \<open>
  C10. The claim speaks of \<^verbatim>\<open>WithCapacity(c)\<close> for every non-negative \<open>c\<close>. \<^verbatim>\<open>make\<close>
  does not accept every \<^verbatim>\<open>uint64\<close>: on linux/amd64 with \<^verbatim>\<open>int\<close> elements it panics
  at \<^verbatim>\<open>c = 1 << 63\<close>, which is not an \<^verbatim>\<open>int\<close>, and at \<^verbatim>\<open>c = 1 << 62\<close>, whose array
  exceeds \<^verbatim>\<open>maxAlloc\<close>. No vector is produced there.
\<close>

theorem C10_WithCapacity_counterexample:
  "(WithCapacity amd64_int (2 ^ 63) :: int Vector res) = Panic MakeCapOutOfRange
   \<and> (WithCapacity amd64_int (2 ^ 62) :: int Vector res) = Panic MakeCapOutOfRange"
  by (simp add: WithCapacity_def go_make_def max_int_def amd64_int_def)

text \<open>
  C10, amended. \<^verbatim>\<open>New()\<close>, and \<^verbatim>\<open>WithCapacity(c)\<close> for every \<open>c\<close> that \<^verbatim>\<open>make\<close> can
  allocate (\<open>c\<close> is an \<^verbatim>\<open>int\<close>, and \<open>c\<close> elements exceed neither \<^verbatim>\<open>maxAlloc\<close> nor the
  memory of the machine), return a vector with a slice that is not nil (also for
  \<open>c = 0\<close>) and no elements, on which \<^verbatim>\<open>Reverse()\<close> returns the nil error; for every
  other \<open>c\<close>, \<^verbatim>\<open>WithCapacity(c)\<close> returns no vector. \<^verbatim>\<open>Reverse()\<close> returns the nil-access
  error exactly on a vector without a slice, and the only such vector is the zero value.
\<close>

theorem C10_constructed_vector_has_slice:
  "(\<exists>v a. New rt = Ret v \<and> v_slice v = Some a \<and> elems a = []
           \<and> Reverse (Some (v :: 'a::zero Vector)) = (None, Some v))
   \<and> (unat c \<le> max_int \<and> elem_size rt * unat c \<le> maxAlloc rt
          \<and> elem_size rt * unat c \<le> free_mem rt \<longrightarrow>
        (\<exists>v a. WithCapacity rt c = Ret v \<and> v_slice v = Some a \<and> elems a = []
           \<and> Reverse (Some (v :: 'a Vector)) = (None, Some v)))
   \<and> (max_int < unat c \<or> maxAlloc rt < elem_size rt * unat c
          \<or> free_mem rt < elem_size rt * unat c \<longrightarrow>
        (\<forall>v :: 'a Vector. WithCapacity rt c \<noteq> Ret v))
   \<and> (fst (Reverse (Some u)) = Some (errors_New nilValueAccess)) = (v_slice u = None)
   \<and> (vec_inv u \<longrightarrow> (v_slice u = None) = (u = zero_value))
   \<and> (reachable rt slack (w :: 'a Vector) \<longrightarrow>
        (fst (Reverse (Some w)) = Some (errors_New nilValueAccess)) = (w = zero_value))"
proof -
  have nil_u: "(fst (Reverse (Some u)) = Some (errors_New nilValueAccess)) = (v_slice u = None)"
    by (simp add: Reverse_def)
  have zero_u: "vec_inv u \<Longrightarrow> (v_slice u = None) = (u = zero_value)"
    using vec_inv_nil [of u] by (auto simp: zero_value_def)
  have nil_w: "(fst (Reverse (Some w)) = Some (errors_New nilValueAccess)) = (v_slice w = None)"
    by (simp add: Reverse_def)
  have zero_w: "vec_inv w \<Longrightarrow> (v_slice w = None) = (w = zero_value)"
    using vec_inv_nil [of w] by (auto simp: zero_value_def)
  have "reachable rt slack w \<Longrightarrow>
      (fst (Reverse (Some w)) = Some (errors_New nilValueAccess)) = (w = zero_value)"
    using reachable_vec_inv [of rt slack w] nil_w zero_w by simp
  moreover have "\<exists>v a. New rt = Ret v \<and> v_slice v = Some a \<and> elems a = []
           \<and> Reverse (Some (v :: 'a Vector)) = (None, Some v)"
    by (simp add: New_eq Reverse_def slices_Reverse_def)
  moreover have "unat c \<le> max_int \<and> elem_size rt * unat c \<le> maxAlloc rt
          \<and> elem_size rt * unat c \<le> free_mem rt \<Longrightarrow>
        (\<exists>v a. WithCapacity rt c = Ret v \<and> v_slice v = Some a \<and> elems a = []
           \<and> Reverse (Some (v :: 'a Vector)) = (None, Some v))"
    by (simp add: WithCapacity_Ret Reverse_def slices_Reverse_def)
  moreover have "max_int < unat c \<or> maxAlloc rt < elem_size rt * unat c
          \<or> free_mem rt < elem_size rt * unat c \<Longrightarrow>
        (\<forall>v :: 'a Vector. WithCapacity rt c \<noteq> Ret v)"
    by (auto simp: WithCapacity_def go_make_def)
  ultimately show ?thesis
    using nil_u zero_u by simp
qed

theorem C10_constructed_vector_has_slice_witness:
  "New amd64_int = Ret fresh_vec \<and> Reverse (Some fresh_vec) = (None, Some fresh_vec)
   \<and> unat (3 :: uint64) \<le> max_int
   \<and> elem_size amd64_int * unat (3 :: uint64) \<le> maxAlloc amd64_int
   \<and> elem_size amd64_int * unat (3 :: uint64) \<le> free_mem amd64_int
   \<and> (\<exists>v a. WithCapacity amd64_int 3 = Ret v \<and> v_slice v = Some a \<and> elems a = []
           \<and> Reverse (Some (v :: int Vector)) = (None, Some v))
   \<and> maxAlloc amd64_int < elem_size amd64_int * unat (2 ^ 62 :: uint64)
   \<and> (\<forall>v :: int Vector. WithCapacity amd64_int (2 ^ 62) \<noteq> Ret v)
   \<and> vec_inv (zero_value :: int Vector)
   \<and> reachable amd64_int doubling (zero_value :: int Vector)
   \<and> fst (Reverse (Some (zero_value :: int Vector))) = Some (errors_New nilValueAccess)
   \<and> reachable amd64_int doubling example_vec
   \<and> fst (Reverse (Some example_vec)) \<noteq> Some (errors_New nilValueAccess)"
proof -
  have a: "unat (3 :: uint64) \<le> max_int
      \<and> elem_size amd64_int * unat (3 :: uint64) \<le> maxAlloc amd64_int
      \<and> elem_size amd64_int * unat (3 :: uint64) \<le> free_mem amd64_int"
    by (simp add: max_int_def amd64_int_def)
  have b: "reachable amd64_int doubling (zero_value :: int Vector)"
    by (rule by_zero_value)
  have c: "example_vec \<noteq> zero_value"
    by (simp add: example_vec_def zero_value_def)
  have d: "maxAlloc amd64_int < elem_size amd64_int * unat (2 ^ 62 :: uint64)"
    by (simp add: amd64_int_def)
  from C10_constructed_vector_has_slice
      [where c = 3 and rt = amd64_int and slack = doubling
         and u = "zero_value :: int Vector" and w = "zero_value :: int Vector"]
    C10_constructed_vector_has_slice
      [where c = "2 ^ 62" and rt = amd64_int and slack = doubling
         and u = "zero_value :: int Vector" and w = example_vec]
    a b c d reachable_example_vec vec_inv_zero_value
  show ?thesis
    by (simp add: New_eq fresh_vec_def Reverse_def slices_Reverse_def)
qed

end
